theory Spec2Isabelle
  imports Complex_Main "HOL-Library.AList" "HOL-Library.Sublist"
begin

section \<open>SaveMetadataManager (src/src/save-metadata-manager.js)\<close>

text \<open>
  A shallow embedding of the class \<^verbatim>\<open>SaveMetadataManager\<close>. The in-memory object
  \<^verbatim>\<open>this.metadata\<close> is a record; the save directory, the clock, the console and the
  Node.js library calls are the explicit environment of every method:

  \<^item> the save directory is an association list from file name to bytes, together with an
    injected fault per file-system call, so that every rejected promise of
    \<^verbatim>\<open>fs.promises\<close> is a branch; \<^verbatim>\<open>path.join(saveDirectory, name)\<close> is identified with
    \<^verbatim>\<open>name\<close> (plain file names inside the directory);
  \<^item> \<^verbatim>\<open>Date.now()\<close> and \<^verbatim>\<open>new Date().toISOString()\<close> are arguments;
  \<^item> \<^verbatim>\<open>crypto\<close>'s SHA-256, \<^verbatim>\<open>JSON.stringify\<close> and \<^verbatim>\<open>JSON.parse\<close> are not code of this
    repository: they are the fields of a \<open>platform\<close> record passed to the methods;
  \<^item> JavaScript numbers are mathematical integers (exact below \<open>2^53\<close>);
  \<^item> an object used as a dictionary is an association list in insertion order:
    assigning an existing key keeps its place, a new key goes last, \<^verbatim>\<open>delete\<close> removes it
    (that JavaScript enumerates keys which are array indices first is not modelled: no
    property below depends on the order);
  \<^item> a method returns its result (\<open>Inl\<close> the thrown error), the record and the world.
\<close>

subsection \<open>Data\<close>

record save_entry =
  filename :: string
  checksum :: string
  size_f :: int
  created :: int
  lastModified :: int
  lastAccessed :: "int option"
  isBackup :: bool
  saveCount :: int
  gameVersion :: string
  playerLevel :: int

record statistics_t =
  totalSaveOperations :: int
  totalLoadOperations :: int
  lastSuccessfulSave :: "int option"
  lastSuccessfulLoad :: "int option"
  averageSaveSize :: int
  totalDiskUsage :: int

record metadata_t =
  version :: string
  lastSave :: "int option"
  autoSaveEnabled :: bool
  autoSaveInterval :: int
  backupCount :: int
  totalSaves :: int
  migrationCompleted :: bool
  saves :: "(string \<times> save_entry) list"
  statistics :: statistics_t

text \<open>The argument \<^verbatim>\<open>saveInfo\<close> of \<^verbatim>\<open>registerSaveFile\<close>: every property may be absent.\<close>

record save_info =
  si_size :: "int option"
  si_gameVersion :: "string option"
  si_playerLevel :: "int option"

text \<open>The argument of \<^verbatim>\<open>updateConfiguration\<close>: \<open>None\<close> is \<^verbatim>\<open>undefined\<close>.\<close>

record config_t =
  c_autoSaveEnabled :: "bool option"
  c_autoSaveInterval :: "int option"
  c_backupCount :: "int option"
  c_migrationCompleted :: "bool option"

text \<open>
  What \<^verbatim>\<open>JSON.parse\<close> returns for a document of this schema: each top-level key is
  present or not (outer option); \<^verbatim>\<open>saves\<close> and \<^verbatim>\<open>statistics\<close> may be \<^verbatim>\<open>null\<close>
  (inner option), which \<^verbatim>\<open>loadMetadata\<close> tests.
\<close>

record doc_t =
  d_version :: "string option"
  d_lastSave :: "int option option"
  d_autoSaveEnabled :: "bool option"
  d_autoSaveInterval :: "int option"
  d_backupCount :: "int option"
  d_totalSaves :: "int option"
  d_migrationCompleted :: "bool option"
  d_saves :: "(string \<times> save_entry) list option option"
  d_statistics :: "statistics_t option option"

datatype parsed = SyntaxError string | Object doc_t

record platform =
  sha256 :: "string \<Rightarrow> string"
  json_stringify :: "metadata_t \<Rightarrow> string"
  json_parse :: "string \<Rightarrow> parsed"

subsection \<open>Errors, console and file system\<close>

datatype errno = ENOENT | EACCES | EIO | ENOSPC

datatype fs_call = CAccess | CReadFile | CWriteFile | CRename | CCopyFile | CReaddir

datatype js_error =
    FsError errno string string
  | JsonSyntaxError string
  | Error string

datatype level = Log | Warn | Err

record world =
  files :: "(string \<times> string) list"
  fault :: "fs_call \<Rightarrow> string \<Rightarrow> errno option"
  console :: "(level \<times> string) list"

fun errno_text :: "errno \<Rightarrow> string" where
  "errno_text ENOENT = ''ENOENT: no such file or directory''"
| "errno_text EACCES = ''EACCES: permission denied''"
| "errno_text EIO = ''EIO: i/o error''"
| "errno_text ENOSPC = ''ENOSPC: no space left on device''"

text \<open>\<^verbatim>\<open>error.message\<close>; a file-system error reads \<^verbatim>\<open>CODE: text, syscall 'path'\<close>.\<close>

fun message :: "js_error \<Rightarrow> string" where
  "message (FsError c sc p) = errno_text c @ '', '' @ sc @ '' '' @ [CHR 0x27] @ p @ [CHR 0x27]"
| "message (JsonSyntaxError s) = s"
| "message (Error s) = s"



definition console_put :: "level \<Rightarrow> string \<Rightarrow> world \<Rightarrow> world" where
  "console_put l s w = w\<lparr>console := console w @ [(l, s)]\<rparr>"

definition fs_access :: "world \<Rightarrow> string \<Rightarrow> js_error + unit" where
  "fs_access w p =
     (case fault w CAccess p of
        Some c \<Rightarrow> Inl (FsError c ''access'' p)
      | None \<Rightarrow>
          (case map_of (files w) p of
             None \<Rightarrow> Inl (FsError ENOENT ''access'' p)
           | Some b \<Rightarrow> Inr ()))"

definition fs_readFile :: "world \<Rightarrow> string \<Rightarrow> js_error + string" where
  "fs_readFile w p =
     (case fault w CReadFile p of
        Some c \<Rightarrow> Inl (FsError c ''open'' p)
      | None \<Rightarrow>
          (case map_of (files w) p of
             None \<Rightarrow> Inl (FsError ENOENT ''open'' p)
           | Some b \<Rightarrow> Inr b))"

definition fs_writeFile :: "world \<Rightarrow> string \<Rightarrow> string \<Rightarrow> (js_error + unit) \<times> world" where
  "fs_writeFile w p b =
     (case fault w CWriteFile p of
        Some c \<Rightarrow> (Inl (FsError c ''open'' p), w)
      | None \<Rightarrow> (Inr (), w\<lparr>files := AList.update p b (files w)\<rparr>))"

definition fs_rename :: "world \<Rightarrow> string \<Rightarrow> string \<Rightarrow> (js_error + unit) \<times> world" where
  "fs_rename w p q =
     (case fault w CRename p of
        Some c \<Rightarrow> (Inl (FsError c ''rename'' p), w)
      | None \<Rightarrow>
          (case map_of (files w) p of
             None \<Rightarrow> (Inl (FsError ENOENT ''rename'' p), w)
           | Some b \<Rightarrow>
               (Inr (), w\<lparr>files := AList.update q b (AList.delete p (files w))\<rparr>)))"

definition fs_copyFile :: "world \<Rightarrow> string \<Rightarrow> string \<Rightarrow> (js_error + unit) \<times> world" where
  "fs_copyFile w p q =
     (case fault w CCopyFile p of
        Some c \<Rightarrow> (Inl (FsError c ''copyfile'' p), w)
      | None \<Rightarrow>
          (case map_of (files w) p of
             None \<Rightarrow> (Inl (FsError ENOENT ''copyfile'' p), w)
           | Some b \<Rightarrow> (Inr (), w\<lparr>files := AList.update q b (files w)\<rparr>)))"

text \<open>\<^verbatim>\<open>fs.readdir(this.saveDirectory)\<close>: the names in the directory.\<close>

definition fs_readdir :: "world \<Rightarrow> js_error + string list" where
  "fs_readdir w =
     (case fault w CReaddir [] of
        Some c \<Rightarrow> Inl (FsError c ''scandir'' [])
      | None \<Rightarrow> Inr (map fst (files w)))"

subsection \<open>JavaScript helpers\<close>

text \<open>\<^verbatim>\<open>a || b\<close> on numbers: \<open>0\<close> is falsy; on an absent property: \<^verbatim>\<open>undefined\<close> is falsy.\<close>

definition num_or :: "int \<Rightarrow> int \<Rightarrow> int" where
  "num_or a b = (if a = 0 then b else a)"

definition opt_num_or :: "int option \<Rightarrow> int \<Rightarrow> int" where
  "opt_num_or a b = (case a of None \<Rightarrow> b | Some x \<Rightarrow> num_or x b)"

definition opt_str_or :: "string option \<Rightarrow> string \<Rightarrow> string" where
  "opt_str_or a b = (case a of None \<Rightarrow> b | Some s \<Rightarrow> if s = [] then b else s)"

text \<open>\<^verbatim>\<open>s.includes(sub)\<close>.\<close>

fun str_includes :: "string \<Rightarrow> string \<Rightarrow> bool" where
  "str_includes [] sub = (sub = [])"
| "str_includes (c # cs) sub = (prefix sub (c # cs) \<or> str_includes cs sub)"

text \<open>
  \<^verbatim>\<open>Math.round(a / n)\<close> for integers \<open>a\<close> and \<open>n > 0\<close>: the nearest integer, a tie
  going up.
\<close>

definition math_round_div :: "int \<Rightarrow> int \<Rightarrow> int" where
  "math_round_div a n = (2 * a + n) div (2 * n)"

text \<open>A number inside a template string, in decimal.\<close>

fun digits :: "nat \<Rightarrow> string" where
  "digits n =
     (if n < 10 then [''0123456789'' ! n]
      else digits (n div 10) @ [''0123456789'' ! (n mod 10)])"

subsection \<open>The constructor's record and persistence\<close>

definition default_statistics :: statistics_t where
  "default_statistics =
     \<lparr>totalSaveOperations = 0, totalLoadOperations = 0, lastSuccessfulSave = None,
      lastSuccessfulLoad = None, averageSaveSize = 0, totalDiskUsage = 0\<rparr>"

definition initial_metadata :: metadata_t where
  "initial_metadata =
     \<lparr>version = ''1.0.0'', lastSave = None, autoSaveEnabled = True,
      autoSaveInterval = 30000, backupCount = 10, totalSaves = 0,
      migrationCompleted = False, saves = [], statistics = default_statistics\<rparr>"

definition metadataFile :: string where
  "metadataFile = ''metadata.json''"

definition saveMetadata :: "platform \<Rightarrow> metadata_t \<Rightarrow> world \<Rightarrow> (js_error + unit) \<times> world" where
  "saveMetadata P m w =
     (let metadataJson = json_stringify P m;
          tempFile = metadataFile @ ''.tmp''
      in case fs_writeFile w tempFile metadataJson of
           (Inl e, w1) \<Rightarrow> (Inl (Error (''Failed to save metadata: '' @ message e)), w1)
         | (Inr u, w1) \<Rightarrow>
             (case fs_rename w1 tempFile metadataFile of
                (Inl e, w2) \<Rightarrow> (Inl (Error (''Failed to save metadata: '' @ message e)), w2)
              | (Inr u2, w2) \<Rightarrow> (Inr (), console_put Log ''Metadata saved successfully'' w2)))"







subsection \<open>Statistics and registration\<close>

definition updateStatistics :: "metadata_t \<Rightarrow> world \<Rightarrow> metadata_t \<times> world" where
  "updateStatistics m w =
     (let saveFiles = map snd (saves m)
      in (if length saveFiles > 0 then
            (let totalSize = foldl (\<lambda>sum file. sum + num_or (size_f file) 0) 0 saveFiles
             in m\<lparr>statistics := (statistics m)
                   \<lparr>averageSaveSize := math_round_div totalSize (int (length saveFiles)),
                    totalDiskUsage := totalSize\<rparr>\<rparr>)
          else m\<lparr>statistics := (statistics m)\<lparr>averageSaveSize := 0, totalDiskUsage := 0\<rparr>\<rparr>,
          console_put Log ''Statistics updated'' w))"

definition new_entry :: "platform \<Rightarrow> string \<Rightarrow> save_info \<Rightarrow> int \<Rightarrow> string \<Rightarrow>
    save_entry option \<Rightarrow> save_entry" where
  "new_entry P fname saveInfo timestamp fileContent prev =
     \<lparr>filename = fname,
      checksum = sha256 P fileContent,
      size_f = opt_num_or (si_size saveInfo) (int (length fileContent)),
      created = timestamp,
      lastModified = timestamp,
      lastAccessed = None,
      isBackup = str_includes fname ''backup_'',
      saveCount = opt_num_or (map_option saveCount prev) 0 + 1,
      gameVersion = opt_str_or (si_gameVersion saveInfo) ''unknown'',
      playerLevel = opt_num_or (si_playerLevel saveInfo) 0\<rparr>"

definition registerSaveFile :: "platform \<Rightarrow> string \<Rightarrow> save_info \<Rightarrow> int \<Rightarrow> metadata_t \<Rightarrow> world \<Rightarrow>
    (js_error + save_entry) \<times> metadata_t \<times> world" where
  "registerSaveFile P fname saveInfo timestamp m w =
     (case fs_readFile w fname of
        Inl e \<Rightarrow>
          (Inl (Error (''Failed to register save file '' @ fname @ '': '' @ message e)), m, w)
      | Inr fileContent \<Rightarrow>
          (let entry = new_entry P fname saveInfo timestamp fileContent (map_of (saves m) fname);
               m1 = m\<lparr>saves := AList.update fname entry (saves m),
                      lastSave := Some timestamp,
                      totalSaves := totalSaves m + 1,
                      statistics := (statistics m)
                        \<lparr>totalSaveOperations := totalSaveOperations (statistics m) + 1,
                         lastSuccessfulSave := Some timestamp\<rparr>\<rparr>
           in case updateStatistics m1 w of
                (m2, w2) \<Rightarrow>
                  (case saveMetadata P m2 w2 of
                     (Inl e, w3) \<Rightarrow>
                       (Inl (Error (''Failed to register save file '' @ fname @ '': '' @ message e)),
                        m2, w3)
                   | (Inr u, w3) \<Rightarrow>
                       (Inr entry, m2, console_put Log (''Save file registered: '' @ fname) w3))))"

subsection \<open>Validation\<close>







subsection \<open>Load tracking, unregistration, configuration, orphans\<close>

definition recordLoadOperation :: "platform \<Rightarrow> string \<Rightarrow> int \<Rightarrow> metadata_t \<Rightarrow> world \<Rightarrow> metadata_t \<times> world" where
  "recordLoadOperation P fname timestamp m w =
     (let m1 = (case map_of (saves m) fname of
                  None \<Rightarrow> m
                | Some e \<Rightarrow>
                    m\<lparr>saves := AList.update fname (e\<lparr>lastAccessed := Some timestamp\<rparr>) (saves m)\<rparr>);
          m2 = m1\<lparr>statistics := (statistics m1)
                 \<lparr>totalLoadOperations := totalLoadOperations (statistics m1) + 1,
                  lastSuccessfulLoad := Some timestamp\<rparr>\<rparr>
      in case saveMetadata P m2 w of
           (Inl e, w1) \<Rightarrow>
             (m2, console_put Err (''Failed to record load operation: '' @ message e) w1)
         | (Inr u, w1) \<Rightarrow>
             (m2, console_put Log (''Load operation recorded for: '' @ fname) w1))"

definition unregisterSaveFile :: "platform \<Rightarrow> string \<Rightarrow> metadata_t \<Rightarrow> world \<Rightarrow> metadata_t \<times> world" where
  "unregisterSaveFile P fname m w =
     (case map_of (saves m) fname of
        None \<Rightarrow> (m, w)
      | Some e0 \<Rightarrow>
          (let m1 = m\<lparr>saves := AList.delete fname (saves m)\<rparr>
           in case saveMetadata P m1 w of
                (Inl e, w1) \<Rightarrow>
                  (m1, console_put Err
                         (''Failed to unregister save file '' @ fname @ '': '' @ message e) w1)
              | (Inr u, w1) \<Rightarrow>
                  (m1, console_put Log (''Save file unregistered: '' @ fname) w1)))"

definition apply_config :: "config_t \<Rightarrow> metadata_t \<Rightarrow> metadata_t" where
  "apply_config config m =
     (let m1 = (case c_autoSaveEnabled config of None \<Rightarrow> m | Some v \<Rightarrow> m\<lparr>autoSaveEnabled := v\<rparr>);
          m2 = (case c_autoSaveInterval config of None \<Rightarrow> m1 | Some v \<Rightarrow> m1\<lparr>autoSaveInterval := v\<rparr>);
          m3 = (case c_backupCount config of None \<Rightarrow> m2 | Some v \<Rightarrow> m2\<lparr>backupCount := v\<rparr>)
      in case c_migrationCompleted config of None \<Rightarrow> m3 | Some v \<Rightarrow> m3\<lparr>migrationCompleted := v\<rparr>)"

definition updateConfiguration :: "platform \<Rightarrow> config_t \<Rightarrow> metadata_t \<Rightarrow> world \<Rightarrow>
    (js_error + unit) \<times> metadata_t \<times> world" where
  "updateConfiguration P config m w =
     (let m1 = apply_config config m
      in case saveMetadata P m1 w of
           (Inl e, w1) \<Rightarrow>
             (Inl (Error (''Failed to update configuration: '' @ message e)), m1, w1)
         | (Inr u, w1) \<Rightarrow> (Inr (), m1, console_put Log ''Configuration updated'' w1))"

text \<open>The body of the \<^verbatim>\<open>for\<close> loop of \<^verbatim>\<open>cleanupOrphanedMetadata\<close>.\<close>

definition cleanup_next :: "string list \<Rightarrow> metadata_t \<times> nat \<Rightarrow> string \<Rightarrow> metadata_t \<times> nat" where
  "cleanup_next existingFiles st fname =
     (case st of
        (m, cleanedCount) \<Rightarrow>
          if fname \<notin> set existingFiles
          then (m\<lparr>saves := AList.delete fname (saves m)\<rparr>, cleanedCount + 1)
          else (m, cleanedCount))"

definition cleanupOrphanedMetadata :: "platform \<Rightarrow> metadata_t \<Rightarrow> world \<Rightarrow> nat \<times> metadata_t \<times> world" where
  "cleanupOrphanedMetadata P m w =
     (case fs_readdir w of
        Inl e \<Rightarrow>
          (0, m, console_put Err (''Failed to cleanup orphaned metadata: '' @ message e) w)
      | Inr existingFiles \<Rightarrow>
          (case foldl (cleanup_next existingFiles) (m, 0) (map fst (saves m)) of
             (m1, cleanedCount) \<Rightarrow>
               if cleanedCount > 0 then
                 (case updateStatistics m1 w of
                    (m2, w2) \<Rightarrow>
                      (case saveMetadata P m2 w2 of
                         (Inl e, w3) \<Rightarrow>
                           (0, m2,
                            console_put Err
                              (''Failed to cleanup orphaned metadata: '' @ message e) w3)
                       | (Inr u, w3) \<Rightarrow>
                           (cleanedCount, m2,
                            console_put Log
                              (''Cleaned up '' @ digits cleanedCount @
                               '' orphaned metadata entries'') w3)))
               else (cleanedCount, m1, w)))"

subsection \<open>Sequences of calls\<close>

text \<open>
  The mutating methods of a constructed manager, as one call each. Between two calls the
  directory may have changed in any way, so every step takes its own world. A record is
  reachable when calls lead to it from the constructor's record.
\<close>

datatype call =
    Register string save_info int
  | RecordLoad string int
  | Unregister string
  | UpdateConfiguration config_t
  | CleanupOrphaned

fun perform :: "platform \<Rightarrow> call \<Rightarrow> metadata_t \<Rightarrow> world \<Rightarrow> metadata_t" where
  "perform P (Register fname saveInfo timestamp) m w =
     fst (snd (registerSaveFile P fname saveInfo timestamp m w))"
| "perform P (RecordLoad fname timestamp) m w = fst (recordLoadOperation P fname timestamp m w)"
| "perform P (Unregister fname) m w = fst (unregisterSaveFile P fname m w)"
| "perform P (UpdateConfiguration config) m w = fst (snd (updateConfiguration P config m w))"
| "perform P CleanupOrphaned m w = fst (snd (cleanupOrphanedMetadata P m w))"

fun is_Register :: "call \<Rightarrow> bool" where
  "is_Register (Register fname saveInfo timestamp) = True"
| "is_Register (RecordLoad fname timestamp) = False"
| "is_Register (Unregister fname) = False"
| "is_Register (UpdateConfiguration config) = False"
| "is_Register CleanupOrphaned = False"

inductive reachable :: "metadata_t \<Rightarrow> bool" where
  initial: "reachable initial_metadata"
| call: "reachable m \<Longrightarrow> reachable (perform P c m w)"

subsection \<open>The document of a record, and a platform for concrete runs\<close>

text \<open>
  \<^verbatim>\<open>JSON.stringify\<close> writes every own property of the record, so parsing its text
  gives a document with every key present.
\<close>

definition doc_of :: "metadata_t \<Rightarrow> doc_t" where
  "doc_of m =
     \<lparr>d_version = Some (version m), d_lastSave = Some (lastSave m),
      d_autoSaveEnabled = Some (autoSaveEnabled m),
      d_autoSaveInterval = Some (autoSaveInterval m),
      d_backupCount = Some (backupCount m), d_totalSaves = Some (totalSaves m),
      d_migrationCompleted = Some (migrationCompleted m),
      d_saves = Some (Some (saves m)), d_statistics = Some (Some (statistics m))\<rparr>"

text \<open>
  A stand-in platform for evaluating the methods on concrete inputs: an injective digest,
  and a serialiser that is inverted by its parser on the constructor's record.
\<close>

definition test_platform :: platform where
  "test_platform =
     \<lparr>sha256 = (\<lambda>b. ''sha:'' @ b),
      json_stringify = (\<lambda>m. ''{totalSaves:'' @ digits (nat (totalSaves m)) @ ''}''),
      json_parse = (\<lambda>s. if s = ''{totalSaves:0}'' then Object (doc_of initial_metadata)
                         else SyntaxError ''Unexpected token'')\<rparr>"

definition no_info :: save_info where
  "no_info = \<lparr>si_size = None, si_gameVersion = None, si_playerLevel = None\<rparr>"

definition dir_of :: "(string \<times> string) list \<Rightarrow> world" where
  "dir_of fs = \<lparr>files = fs, fault = (\<lambda>c p. None), console = []\<rparr>"

text \<open>The same directory on a full disk: writing the temporary file fails.\<close>

definition full_disk_of :: "(string \<times> string) list \<Rightarrow> world" where
  "full_disk_of fs =
     \<lparr>files = fs,
      fault = (\<lambda>c p. if c = CWriteFile then Some ENOSPC else None),
      console = []\<rparr>"

text \<open>The record after registering \<^verbatim>\<open>a.json\<close> (content \<^verbatim>\<open>AAAA\<close>) on a new manager.\<close>

definition one_save :: metadata_t where
  "one_save = fst (snd (registerSaveFile test_platform ''a.json'' no_info 1000 initial_metadata
       (dir_of [(''a.json'', ''AAAA'')])))"



text \<open>
  A record that tracks the manager's own temporary file name and a file \<^verbatim>\<open>gone.json\<close>,
  reached by two registrations, and a directory where only the former is left.
\<close>

definition tracks_tmp :: metadata_t where
  "tracks_tmp =
     fst (snd (registerSaveFile test_platform ''gone.json'' no_info 2000
       (fst (snd (registerSaveFile test_platform ''metadata.json.tmp'' no_info 1000 initial_metadata
          (dir_of [(''metadata.json.tmp'', ''{}'')]))))
       (dir_of [(''metadata.json.tmp'', ''{}''), (''gone.json'', ''G'')])))"

definition leftover_tmp :: world where
  "leftover_tmp = dir_of [(''metadata.json.tmp'', ''{}'')]"


declare digits.simps [simp del]

section \<open>Auxiliary facts\<close>

lemma saveMetadata_eq:
  "saveMetadata P m w =
     (case fault w CWriteFile ''metadata.json.tmp'' of
        Some c \<Rightarrow> (Inl (Error (''Failed to save metadata: '' @ message (FsError c ''open'' ''metadata.json.tmp''))), w)
      | None \<Rightarrow>
         (case fault w CRename ''metadata.json.tmp'' of
            Some c \<Rightarrow> (Inl (Error (''Failed to save metadata: '' @ message (FsError c ''rename'' ''metadata.json.tmp''))),
                        w\<lparr>files := AList.update ''metadata.json.tmp'' (json_stringify P m) (files w)\<rparr>)
          | None \<Rightarrow> (Inr (), console_put Log ''Metadata saved successfully''
               (w\<lparr>files := AList.update ''metadata.json'' (json_stringify P m)
                    (AList.delete ''metadata.json.tmp''
                       (AList.update ''metadata.json.tmp'' (json_stringify P m) (files w)))\<rparr>))))"
  by (simp add: saveMetadata_def fs_writeFile_def fs_rename_def metadataFile_def Let_def
       AList.update_conv' split: option.splits)


lemma updateStatistics_fields:
  "saves (fst (updateStatistics m w)) = saves m"
  "totalSaves (fst (updateStatistics m w)) = totalSaves m"
  "totalSaveOperations (statistics (fst (updateStatistics m w))) = totalSaveOperations (statistics m)"
  by (simp_all add: updateStatistics_def Let_def)




lemma register_metadata:
  "fs_readFile w fname = Inr content \<Longrightarrow>
   fst (snd (registerSaveFile P fname si ts m w)) =
     fst (updateStatistics
       (m\<lparr>saves := AList.update fname (new_entry P fname si ts content (map_of (saves m) fname)) (saves m),
          lastSave := Some ts,
          totalSaves := totalSaves m + 1,
          statistics := (statistics m)
            \<lparr>totalSaveOperations := totalSaveOperations (statistics m) + 1,
             lastSuccessfulSave := Some ts\<rparr>\<rparr>) w)"
  by (simp add: registerSaveFile_def Let_def split: prod.splits sum.splits)

lemma register_unreadable:
  "fs_readFile w fname = Inl e \<Longrightarrow>
   registerSaveFile P fname si ts m w =
     (Inl (Error (''Failed to register save file '' @ fname @ '': '' @ message e)), m, w)"
  by (simp add: registerSaveFile_def)



lemma cleanup_next_pair:
  "cleanup_next ex (m, n) k =
     (if k \<notin> set ex then (m\<lparr>saves := AList.delete k (saves m)\<rparr>, n + 1) else (m, n))"
  by (simp add: cleanup_next_def)

lemma cleanup_fold:
  "foldl (cleanup_next ex) (m, n) ks =
     (m\<lparr>saves := filter (\<lambda>kv. fst kv \<in> set ex \<or> fst kv \<notin> set ks) (saves m)\<rparr>,
      n + length (filter (\<lambda>k. k \<notin> set ex) ks))"
proof (induction ks arbitrary: m n)
  case Nil
  then show ?case by simp
next
  case (Cons k ks)
  show ?case
  proof (cases "k \<in> set ex")
    case True
    have "filter (\<lambda>kv. fst kv \<in> set ex \<or> fst kv \<notin> set ks) (saves m) =
          filter (\<lambda>kv. fst kv \<in> set ex \<or> fst kv \<notin> set (k # ks)) (saves m)"
      using True by (intro filter_cong) auto
    then show ?thesis using True by (simp add: cleanup_next_pair Cons.IH)
  next
    case False
    have "filter (\<lambda>kv. fst kv \<in> set ex \<or> fst kv \<notin> set ks) (AList.delete k (saves m)) =
          filter (\<lambda>kv. fst kv \<in> set ex \<or> fst kv \<notin> set (k # ks)) (saves m)"
      using False unfolding AList.delete_eq filter_filter
      by (intro filter_cong) auto
    then show ?thesis using False by (simp add: cleanup_next_pair Cons.IH)
  qed
qed

lemma cleanup_loop:
  "foldl (cleanup_next ex) (m, 0) (map fst (saves m)) =
     (m\<lparr>saves := filter (\<lambda>kv. fst kv \<in> set ex) (saves m)\<rparr>,
      length (filter (\<lambda>kv. fst kv \<notin> set ex) (saves m)))"
proof -
  have a: "filter (\<lambda>kv. fst kv \<in> set ex \<or> fst kv \<notin> set (map fst (saves m))) (saves m) =
        filter (\<lambda>kv. fst kv \<in> set ex) (saves m)"
    by (intro filter_cong) auto
  have b: "length (filter (\<lambda>k. k \<notin> set ex) (map fst (saves m))) =
        length (filter (\<lambda>kv. fst kv \<notin> set ex) (saves m))"
    by (simp add: filter_map comp_def)
  show ?thesis unfolding cleanup_fold a using b by simp
qed

lemma no_orphans_filter:
  "length (filter (\<lambda>kv. fst kv \<notin> set ex) xs) = 0 \<Longrightarrow>
   filter (\<lambda>kv. fst kv \<in> set ex) xs = xs"
  by (induction xs) (auto split: if_splits)

lemma map_of_filter_keys:
  "map_of (filter (\<lambda>kv. fst kv \<in> S) al) k = (if k \<in> S then map_of al k else None)"
  by (induction al) auto


lemma updateStatistics_pair:
  "updateStatistics m w = (fst (updateStatistics m w), console_put Log ''Statistics updated'' w)"
  by (simp add: updateStatistics_def Let_def)

lemma cleanup_eq:
  assumes "fs_readdir w = Inr ex"
  shows "cleanupOrphanedMetadata P m w =
     (let m1 = m\<lparr>saves := filter (\<lambda>kv. fst kv \<in> set ex) (saves m)\<rparr>;
          k = length (filter (\<lambda>kv. fst kv \<notin> set ex) (saves m))
      in if k > 0 then
           (case saveMetadata P (fst (updateStatistics m1 w)) (console_put Log ''Statistics updated'' w) of
              (Inl e, w3) \<Rightarrow>
                (0, fst (updateStatistics m1 w),
                 console_put Err (''Failed to cleanup orphaned metadata: '' @ message e) w3)
            | (Inr u, w3) \<Rightarrow>
                (k, fst (updateStatistics m1 w),
                 console_put Log (''Cleaned up '' @ digits k @ '' orphaned metadata entries'') w3))
         else (0, m, w))"
proof (cases "length (filter (\<lambda>kv. fst kv \<notin> set ex) (saves m)) = 0")
  case True
  then have "filter (\<lambda>kv. fst kv \<in> set ex) (saves m) = saves m"
    by (rule no_orphans_filter)
  then show ?thesis using assms True
    unfolding cleanupOrphanedMetadata_def cleanup_loop by simp
next
  case False
  let ?m1 = "m\<lparr>saves := filter (\<lambda>kv. fst kv \<in> set ex) (saves m)\<rparr>"
  have u: "updateStatistics ?m1 w =
      (fst (updateStatistics ?m1 w), console_put Log ''Statistics updated'' w)"
    by (rule updateStatistics_pair)
  show ?thesis
    unfolding cleanupOrphanedMetadata_def cleanup_loop assms Let_def
    apply (simp only: sum.case prod.case)
    apply (subst u)
    using False apply (simp only: prod.case)
    apply simp
    done
qed

lemma recordLoad_metadata:
  "fst (recordLoadOperation P fname ts m w) =
     (case map_of (saves m) fname of
        None \<Rightarrow> m
      | Some e \<Rightarrow> m\<lparr>saves := AList.update fname (e\<lparr>lastAccessed := Some ts\<rparr>) (saves m)\<rparr>)
     \<lparr>statistics := (statistics m)
        \<lparr>totalLoadOperations := totalLoadOperations (statistics m) + 1,
         lastSuccessfulLoad := Some ts\<rparr>\<rparr>"
  by (simp add: recordLoadOperation_def Let_def split: prod.splits sum.splits option.splits)

lemma unregister_metadata:
  "fst (unregisterSaveFile P fname m w) =
     (case map_of (saves m) fname of
        None \<Rightarrow> m
      | Some e \<Rightarrow> m\<lparr>saves := AList.delete fname (saves m)\<rparr>)"
  by (simp add: unregisterSaveFile_def Let_def split: prod.splits sum.splits option.splits)

lemma updateConfiguration_metadata:
  "fst (snd (updateConfiguration P config m w)) = apply_config config m"
  by (simp add: updateConfiguration_def Let_def split: prod.splits sum.splits)

lemma apply_config_fields:
  "saves (apply_config config m) = saves m"
  "totalSaves (apply_config config m) = totalSaves m"
  "statistics (apply_config config m) = statistics m"
  by (simp_all add: apply_config_def Let_def split: option.splits)

lemma cleanup_saves:
  "saves (fst (snd (cleanupOrphanedMetadata P m w))) =
     (case fs_readdir w of
        Inl e \<Rightarrow> saves m
      | Inr ex \<Rightarrow> filter (\<lambda>kv. fst kv \<in> set ex) (saves m))"
proof (cases "fs_readdir w")
  case (Inl e)
  then show ?thesis by (simp add: cleanupOrphanedMetadata_def)
next
  case (Inr ex)
  show ?thesis
  proof (cases "length (filter (\<lambda>kv. fst kv \<notin> set ex) (saves m)) = 0")
    case True
    then have "filter (\<lambda>kv. fst kv \<in> set ex) (saves m) = saves m"
      by (rule no_orphans_filter)
    then show ?thesis using Inr True by (simp add: cleanup_eq)
  next
    case False
    then show ?thesis using Inr
      by (simp add: cleanup_eq Let_def updateStatistics_fields split: prod.splits sum.splits)
  qed
qed


lemma register_saves:
  "saves (fst (snd (registerSaveFile P fname si ts m w))) =
     (case fs_readFile w fname of
        Inl e \<Rightarrow> saves m
      | Inr content \<Rightarrow>
          AList.update fname (new_entry P fname si ts content (map_of (saves m) fname)) (saves m))"
  by (cases "fs_readFile w fname")
     (simp_all add: register_unreadable register_metadata updateStatistics_fields)

lemma register_totalSaves:
  "totalSaves (fst (snd (registerSaveFile P fname si ts m w))) =
     (case fs_readFile w fname of Inl e \<Rightarrow> totalSaves m | Inr content \<Rightarrow> totalSaves m + 1)"
  by (cases "fs_readFile w fname")
     (simp_all add: register_unreadable register_metadata updateStatistics_fields)




lemma set_update_subset: "set (AList.update k v al) \<subseteq> insert (k, v) (set al)"
  by (induction al) auto

lemma set_delete_subset: "set (AList.delete k al) \<subseteq> set al"
  by (auto simp add: AList.delete_eq)

lemma new_entry_stamps:
  "created (new_entry P fname si ts content prev) = ts"
  "lastModified (new_entry P fname si ts content prev) = ts"
  by (simp_all add: new_entry_def)

lemma perform_stamps:
  assumes "\<forall>kv \<in> set (saves m). created (snd kv) = lastModified (snd kv)"
  shows "\<forall>kv \<in> set (saves (perform P c m w)). created (snd kv) = lastModified (snd kv)"
proof (cases c)
  case (Register fname si ts)
  show ?thesis
  proof (cases "fs_readFile w fname")
    case (Inl e)
    then show ?thesis using assms Register by (simp add: register_saves)
  next
    case (Inr content)
    then show ?thesis using assms Register set_update_subset
      by (fastforce simp add: register_saves new_entry_stamps)
  qed
next
  case (RecordLoad fname ts)
  show ?thesis
  proof (cases "map_of (saves m) fname")
    case None
    then show ?thesis using assms RecordLoad by (simp add: recordLoad_metadata)
  next
    case (Some e)
    then have "(fname, e) \<in> set (saves m)" by (rule map_of_SomeD)
    then have "created e = lastModified e" using assms by fastforce
    then show ?thesis using assms RecordLoad Some
        set_update_subset [of fname "e\<lparr>lastAccessed := Some ts\<rparr>" "saves m"]
      by (fastforce simp add: recordLoad_metadata)
  qed
next
  case (Unregister fname)
  then show ?thesis using assms set_delete_subset
    by (fastforce simp add: unregister_metadata split: option.splits)
next
  case (UpdateConfiguration config)
  then show ?thesis using assms
    by (simp add: updateConfiguration_metadata apply_config_fields)
next
  case CleanupOrphaned
  then show ?thesis using assms
    by (auto simp add: cleanup_saves split: sum.splits)
qed

lemma reachable_stamps:
  "reachable m \<Longrightarrow> \<forall>kv \<in> set (saves m). created (snd kv) = lastModified (snd kv)"
proof (induction rule: reachable.induct)
  case initial
  then show ?case by (simp add: initial_metadata_def)
next
  case (call m P c w)
  from call.IH show ?case by (rule perform_stamps)
qed

lemma other_calls_keep_stamps:
  assumes "\<not> is_Register c" and "map_of (saves (perform P c m w)) f = Some e'"
  shows "\<exists>e. map_of (saves m) f = Some e \<and> created e' = created e \<and>
             lastModified e' = lastModified e"
proof (cases c)
  case (Register fname si ts)
  then show ?thesis using assms by simp
next
  case (RecordLoad fname ts)
  then show ?thesis using assms
    by (auto simp add: recordLoad_metadata AList.update_conv' split: option.splits if_splits)
next
  case (Unregister fname)
  then show ?thesis using assms
    by (auto simp add: unregister_metadata AList.delete_conv' split: option.splits if_splits)
next
  case (UpdateConfiguration config)
  then show ?thesis using assms
    by (simp add: updateConfiguration_metadata apply_config_fields)
next
  case CleanupOrphaned
  then show ?thesis using assms
    by (auto simp add: cleanup_saves map_of_filter_keys split: sum.splits if_splits)
qed

lemma reachable_one_save: "reachable one_save"
  unfolding one_save_def
  using reachable.call [OF reachable.initial, of test_platform "Register ''a.json'' no_info 1000"
      "dir_of [(''a.json'', ''AAAA'')]"]
  by simp

lemma saveMetadata_fails:
  assumes "fault w CWriteFile ''metadata.json.tmp'' \<noteq> None \<or>
           fault w CRename ''metadata.json.tmp'' \<noteq> None"
  shows "\<exists>msg w1. saveMetadata P m w = (Inl (Error msg), w1) \<and> console w1 = console w \<and>
           map_of (files w1) ''metadata.json'' = map_of (files w) ''metadata.json''"
  using assms by (auto simp add: saveMetadata_eq AList.update_conv' split: option.splits)

lemma console_put_fields:
  "fault (console_put l s w) = fault w"
  "files (console_put l s w) = files w"
  "console (console_put l s w) = console w @ [(l, s)]"
  by (simp_all add: console_put_def)

lemma register_persist_fails:
  assumes "fs_readFile w fname = Inr content"
    and "fault w CWriteFile ''metadata.json.tmp'' \<noteq> None \<or>
         fault w CRename ''metadata.json.tmp'' \<noteq> None"
  shows "\<exists>msg w'. registerSaveFile P fname si ts m w =
           (Inl (Error msg), fst (snd (registerSaveFile P fname si ts m w)), w') \<and>
           map_of (files w') ''metadata.json'' = map_of (files w) ''metadata.json''"
proof -
  let ?m1 = "m\<lparr>saves := AList.update fname
        (new_entry P fname si ts content (map_of (saves m) fname)) (saves m),
      lastSave := Some ts, totalSaves := totalSaves m + 1,
      statistics := (statistics m)
        \<lparr>totalSaveOperations := totalSaveOperations (statistics m) + 1,
         lastSuccessfulSave := Some ts\<rparr>\<rparr>"
  let ?w2 = "console_put Log ''Statistics updated'' w"
  have f: "fault ?w2 CWriteFile ''metadata.json.tmp'' \<noteq> None \<or>
           fault ?w2 CRename ''metadata.json.tmp'' \<noteq> None"
    using assms(2) by (simp add: console_put_fields)
  obtain msg w1 where s: "saveMetadata P (fst (updateStatistics ?m1 w)) ?w2 = (Inl (Error msg), w1)"
    and d: "map_of (files w1) ''metadata.json'' = map_of (files ?w2) ''metadata.json''"
    using saveMetadata_fails [OF f] by blast
  have u: "updateStatistics ?m1 w = (fst (updateStatistics ?m1 w), ?w2)"
    by (rule updateStatistics_pair)
  have "registerSaveFile P fname si ts m w =
      (Inl (Error (''Failed to register save file '' @ fname @ '': '' @ msg)),
       fst (updateStatistics ?m1 w), w1)"
    unfolding registerSaveFile_def Let_def using assms(1)
    apply (simp only: sum.case)
    apply (subst u)
    apply (simp only: prod.case s sum.case message.simps)
    done
  then show ?thesis using d by (simp add: console_put_fields)
qed

lemma unregister_persist_fails:
  assumes "map_of (saves m) fname = Some e"
    and "fault w CWriteFile ''metadata.json.tmp'' \<noteq> None \<or>
         fault w CRename ''metadata.json.tmp'' \<noteq> None"
  shows "\<exists>msg w'. unregisterSaveFile P fname m w =
           (m\<lparr>saves := AList.delete fname (saves m)\<rparr>, w') \<and>
           console w' = console w @
             [(Err, ''Failed to unregister save file '' @ fname @ '': '' @ msg)] \<and>
           map_of (files w') ''metadata.json'' = map_of (files w) ''metadata.json''"
proof -
  obtain msg w1 where s: "saveMetadata P (m\<lparr>saves := AList.delete fname (saves m)\<rparr>) w =
      (Inl (Error msg), w1)"
    and c: "console w1 = console w"
    and d: "map_of (files w1) ''metadata.json'' = map_of (files w) ''metadata.json''"
    using saveMetadata_fails [OF assms(2)] by blast
  show ?thesis using assms(1) s c d
    by (simp add: unregisterSaveFile_def Let_def console_put_fields)
qed

lemma updateConfiguration_persist_fails:
  assumes "fault w CWriteFile ''metadata.json.tmp'' \<noteq> None \<or>
         fault w CRename ''metadata.json.tmp'' \<noteq> None"
  shows "\<exists>msg w'. updateConfiguration P config m w =
           (Inl (Error msg), apply_config config m, w') \<and>
           map_of (files w') ''metadata.json'' = map_of (files w) ''metadata.json''"
proof -
  obtain msg w1 where s: "saveMetadata P (apply_config config m) w = (Inl (Error msg), w1)"
    and d: "map_of (files w1) ''metadata.json'' = map_of (files w) ''metadata.json''"
    using saveMetadata_fails [OF assms] by blast
  show ?thesis using s d by (simp add: updateConfiguration_def Let_def)
qed


lemma cleanup_readdir_fails:
  "fs_readdir w = Inl e \<Longrightarrow>
   cleanupOrphanedMetadata P m w =
     (0, m, console_put Err (''Failed to cleanup orphaned metadata: '' @ message e) w)"
  by (simp add: cleanupOrphanedMetadata_def)

lemma cleanup_no_orphans:
  assumes "fs_readdir w = Inr ex"
    and "length (filter (\<lambda>kv. fst kv \<notin> set ex) (saves m)) = 0"
  shows "cleanupOrphanedMetadata P m w = (0, m, w)"
  using assms by (simp add: cleanup_eq)

lemma cleanup_some_orphans:
  assumes "fs_readdir w = Inr ex"
    and "0 < length (filter (\<lambda>kv. fst kv \<notin> set ex) (saves m))"
    and "saveMetadata P
           (fst (updateStatistics (m\<lparr>saves := filter (\<lambda>kv. fst kv \<in> set ex) (saves m)\<rparr>) w))
           (console_put Log ''Statistics updated'' w) = (r, w3)"
  shows "cleanupOrphanedMetadata P m w =
     (case r of
        Inl e \<Rightarrow> 0
      | Inr u \<Rightarrow> length (filter (\<lambda>kv. fst kv \<notin> set ex) (saves m)),
      fst (updateStatistics (m\<lparr>saves := filter (\<lambda>kv. fst kv \<in> set ex) (saves m)\<rparr>) w),
      console_put
        (case r of Inl e \<Rightarrow> Err | Inr u \<Rightarrow> Log)
        (case r of
           Inl e \<Rightarrow> ''Failed to cleanup orphaned metadata: '' @ message e
         | Inr u \<Rightarrow> ''Cleaned up '' @
             digits (length (filter (\<lambda>kv. fst kv \<notin> set ex) (saves m))) @
             '' orphaned metadata entries'')
        w3)"
  using assms by (cases r) (simp_all add: cleanup_eq Let_def)

lemma keys_delete: "fst ` set (AList.delete k al) = fst ` set al - {k}"
  by (auto simp add: AList.delete_eq)

lemma saveMetadata_world:
  assumes "saveMetadata P m w = (r, w3)"
  shows "fault w3 = fault w \<and>
         fst ` set (files w) - {''metadata.json.tmp''} \<subseteq> fst ` set (files w3)"
proof -
  have "fault (snd (saveMetadata P m w)) = fault w \<and>
      fst ` set (files w) - {''metadata.json.tmp''} \<subseteq> fst ` set (files (snd (saveMetadata P m w)))"
    by (auto simp add: saveMetadata_eq console_put_fields AList.dom_update keys_delete
        split: option.splits)
  then show ?thesis using assms by simp
qed

lemma fs_readdir_cong:
  "fault w' = fault w \<Longrightarrow> fs_readdir w = Inl e \<Longrightarrow> fs_readdir w' = Inl e"
  by (simp add: fs_readdir_def split: option.splits)

lemma fs_readdir_listing:
  "fs_readdir w = Inr ex \<Longrightarrow> ex = map fst (files w) \<and> fault w CReaddir [] = None"
  by (simp add: fs_readdir_def split: option.splits)






















lemmas run_defs =
  registerSaveFile_def fs_readFile_def fs_access_def fs_writeFile_def fs_rename_def fs_copyFile_def
  fs_readdir_def dir_of_def full_disk_of_def test_platform_def new_entry_def updateStatistics_def
  saveMetadata_def console_put_def initial_metadata_def default_statistics_def no_info_def
  opt_num_or_def opt_str_or_def num_or_def math_round_div_def metadataFile_def Let_def
  unregisterSaveFile_def recordLoadOperation_def updateConfiguration_def apply_config_def
  cleanupOrphanedMetadata_def cleanup_next_pair one_save_def digits.simps

section \<open>Properties\<close>




text \<open>
  C2 (amended). When the write or the rename of \<^verbatim>\<open>saveMetadata\<close> fails,
  \<^verbatim>\<open>registerSaveFile\<close> and \<^verbatim>\<open>updateConfiguration\<close> throw an error to their caller, and
  \<^verbatim>\<open>unregisterSaveFile\<close> logs the failure with \<^verbatim>\<open>console.error\<close> and returns normally.
  In all three the change to the in-memory record has been made before the write and is
  kept: the new entry is stored and \<^verbatim>\<open>totalSaves\<close> incremented, the entry is deleted, the
  configuration fields are set. The file \<^verbatim>\<open>metadata.json\<close> is as it was.
\<close>

theorem persist_failure_keeps_memory_change:
  assumes "fault w CWriteFile ''metadata.json.tmp'' \<noteq> None \<or>
           fault w CRename ''metadata.json.tmp'' \<noteq> None"
  shows "(fs_readFile w fname = Inr content \<longrightarrow>
           (\<exists>msg m' w'. registerSaveFile P fname si ts m w = (Inl (Error msg), m', w') \<and>
              map_of (saves m') fname =
                Some (new_entry P fname si ts content (map_of (saves m) fname)) \<and>
              totalSaves m' = totalSaves m + 1 \<and>
              map_of (files w') ''metadata.json'' = map_of (files w) ''metadata.json'')) \<and>
         (map_of (saves m) fname = Some e \<longrightarrow>
           (\<exists>msg w'. unregisterSaveFile P fname m w =
              (m\<lparr>saves := AList.delete fname (saves m)\<rparr>, w') \<and>
              console w' = console w @
                [(Err, ''Failed to unregister save file '' @ fname @ '': '' @ msg)] \<and>
              map_of (files w') ''metadata.json'' = map_of (files w) ''metadata.json'')) \<and>
         (\<exists>msg w'. updateConfiguration P config m w =
              (Inl (Error msg), apply_config config m, w') \<and>
              map_of (files w') ''metadata.json'' = map_of (files w) ''metadata.json'')"
proof (intro conjI impI)
  assume rd: "fs_readFile w fname = Inr content"
  obtain msg w' where r: "registerSaveFile P fname si ts m w =
           (Inl (Error msg), fst (snd (registerSaveFile P fname si ts m w)), w')"
    and d: "map_of (files w') ''metadata.json'' = map_of (files w) ''metadata.json''"
    using register_persist_fails [OF rd assms] by blast
  have s: "map_of (saves (fst (snd (registerSaveFile P fname si ts m w)))) fname =
      Some (new_entry P fname si ts content (map_of (saves m) fname))"
    using rd by (simp add: register_saves AList.update_conv')
  have t: "totalSaves (fst (snd (registerSaveFile P fname si ts m w))) = totalSaves m + 1"
    using rd by (simp add: register_totalSaves)
  show "\<exists>msg m' w'. registerSaveFile P fname si ts m w = (Inl (Error msg), m', w') \<and>
      map_of (saves m') fname = Some (new_entry P fname si ts content (map_of (saves m) fname)) \<and>
      totalSaves m' = totalSaves m + 1 \<and>
      map_of (files w') ''metadata.json'' = map_of (files w) ''metadata.json''"
    using r d s t by blast
next
  assume "map_of (saves m) fname = Some e"
  then show "\<exists>msg w'. unregisterSaveFile P fname m w =
              (m\<lparr>saves := AList.delete fname (saves m)\<rparr>, w') \<and>
              console w' = console w @
                [(Err, ''Failed to unregister save file '' @ fname @ '': '' @ msg)] \<and>
              map_of (files w') ''metadata.json'' = map_of (files w) ''metadata.json''"
    using assms by (rule unregister_persist_fails)
next
  show "\<exists>msg w'. updateConfiguration P config m w =
              (Inl (Error msg), apply_config config m, w') \<and>
              map_of (files w') ''metadata.json'' = map_of (files w) ''metadata.json''"
    using assms by (rule updateConfiguration_persist_fails)
qed

theorem persist_failure_keeps_memory_change_witness:
  "fault (full_disk_of [(''a.json'', ''AAAA'')]) CWriteFile ''metadata.json.tmp'' = Some ENOSPC \<and>
   fs_readFile (full_disk_of [(''a.json'', ''AAAA'')]) ''a.json'' = Inr ''AAAA'' \<and>
   map_of (saves one_save) ''a.json'' =
     Some (new_entry test_platform ''a.json'' no_info 1000 ''AAAA'' None) \<and>
   fst (snd (registerSaveFile test_platform ''a.json'' no_info 2000 one_save
       (full_disk_of [(''a.json'', ''AAAA'')]))) \<noteq> one_save \<and>
   saves (fst (unregisterSaveFile test_platform ''a.json'' one_save
       (full_disk_of [(''a.json'', ''AAAA'')]))) = []"
  using persist_failure_keeps_memory_change [of "full_disk_of [(''a.json'', ''AAAA'')]"
      "''a.json''" "''AAAA''" test_platform no_info 2000 one_save
      "new_entry test_platform ''a.json'' no_info 1000 ''AAAA'' None"]
  by (simp add: run_defs)

text \<open>
  C2 as stated fails: on a full disk \<^verbatim>\<open>registerSaveFile\<close> throws, and the record of a
  new manager has nevertheless received the entry; \<^verbatim>\<open>unregisterSaveFile\<close> removes the
  entry from the record and only logs the failure; \<^verbatim>\<open>updateConfiguration\<close> throws with
  the field already set.
\<close>

theorem persist_failure_counterexample:
  "fst (registerSaveFile test_platform ''a.json'' no_info 1000 initial_metadata
          (full_disk_of [(''a.json'', ''AAAA'')])) =
     Inl (Error (''Failed to register save file a.json: Failed to save metadata: '' @
                 message (FsError ENOSPC ''open'' ''metadata.json.tmp''))) \<and>
   fst (snd (registerSaveFile test_platform ''a.json'' no_info 1000 initial_metadata
          (full_disk_of [(''a.json'', ''AAAA'')]))) = one_save \<and>
   one_save \<noteq> initial_metadata \<and>
   saves (fst (unregisterSaveFile test_platform ''a.json'' one_save
          (full_disk_of [(''a.json'', ''AAAA'')]))) = [] \<and>
   saves one_save \<noteq> [] \<and>
   console (snd (unregisterSaveFile test_platform ''a.json'' one_save
          (full_disk_of [(''a.json'', ''AAAA'')]))) =
     [(Err, ''Failed to unregister save file a.json: Failed to save metadata: '' @
            message (FsError ENOSPC ''open'' ''metadata.json.tmp''))] \<and>
   fst (updateConfiguration test_platform
          \<lparr>c_autoSaveEnabled = Some False, c_autoSaveInterval = None, c_backupCount = None,
           c_migrationCompleted = None\<rparr>
          initial_metadata (full_disk_of [])) =
     Inl (Error (''Failed to update configuration: Failed to save metadata: '' @
                 message (FsError ENOSPC ''open'' ''metadata.json.tmp''))) \<and>
   autoSaveEnabled (fst (snd (updateConfiguration test_platform
          \<lparr>c_autoSaveEnabled = Some False, c_autoSaveInterval = None, c_backupCount = None,
           c_migrationCompleted = None\<rparr>
          initial_metadata (full_disk_of [])))) = False \<and>
   autoSaveEnabled initial_metadata = True"
  by (simp add: run_defs)
















text \<open>
  C9 (amended). Provided the manager's temporary file name \<^verbatim>\<open>metadata.json.tmp\<close> is not a
  tracked file name, a second \<^verbatim>\<open>cleanupOrphanedMetadata\<close> run on the record and the
  directory that the first call left, with no other change to the directory, returns 0
  and leaves the record as it is; this holds whether the first call could persist or not.
\<close>

theorem cleanup_twice_removes_nothing:
  assumes tmp: "''metadata.json.tmp'' \<notin> fst ` set (saves m)"
    and run: "cleanupOrphanedMetadata P m w = (n1, m1, w1)"
  shows "fst (cleanupOrphanedMetadata P m1 w1) = 0 \<and>
         fst (snd (cleanupOrphanedMetadata P m1 w1)) = m1"
proof (cases "fs_readdir w")
  case (Inl e)
  then have "cleanupOrphanedMetadata P m w =
      (0, m, console_put Err (''Failed to cleanup orphaned metadata: '' @ message e) w)"
    by (rule cleanup_readdir_fails)
  then have w1: "w1 = console_put Err (''Failed to cleanup orphaned metadata: '' @ message e) w"
    using run by simp
  have "fault w1 = fault w" unfolding w1 by (simp add: console_put_fields)
  then have "fs_readdir w1 = Inl e" using Inl by (rule fs_readdir_cong)
  then show ?thesis by (simp add: cleanup_readdir_fails)
next
  case (Inr ex)
  let ?kept = "filter (\<lambda>kv. fst kv \<in> set ex) (saves m)"
  let ?k = "length (filter (\<lambda>kv. fst kv \<notin> set ex) (saves m))"
  let ?m2 = "fst (updateStatistics (m\<lparr>saves := ?kept\<rparr>) w)"
  have ex: "ex = map fst (files w)" and nf: "fault w CReaddir [] = None"
    using fs_readdir_listing [OF Inr] by simp_all
  show ?thesis
  proof (cases "?k = 0")
    case True
    then have "cleanupOrphanedMetadata P m w = (0, m, w)"
      using Inr by (simp add: cleanup_no_orphans)
    then show ?thesis using run by simp
  next
    case False
    then have pos: "0 < ?k" by simp
    obtain r w3 where s: "saveMetadata P ?m2 (console_put Log ''Statistics updated'' w) = (r, w3)"
      by (cases "saveMetadata P ?m2 (console_put Log ''Statistics updated'' w)")
    note c = cleanup_some_orphans [OF Inr pos s]
    have m1: "m1 = ?m2" using c run by simp
    have sv: "saves m1 = ?kept" unfolding m1 by (simp add: updateStatistics_fields)
    from saveMetadata_world [OF s]
    have fw: "fault w3 = fault w"
      and sub: "fst ` set (files w) - {''metadata.json.tmp''} \<subseteq> fst ` set (files w3)"
      by (simp_all add: console_put_fields)
    have fw1: "fault w1 = fault w" and files1: "files w1 = files w3"
      using c run fw by (auto simp add: console_put_fields)
    have rd1: "fs_readdir w1 = Inr (map fst (files w3))"
      using nf fw1 files1 by (simp add: fs_readdir_def)
    have "fst kv \<in> set (map fst (files w3))" if "kv \<in> set ?kept" for kv
    proof -
      have "fst kv \<in> fst ` set (files w)" using that ex by auto
      moreover have "fst kv \<noteq> ''metadata.json.tmp''"
      proof
        assume eq: "fst kv = ''metadata.json.tmp''"
        have "kv \<in> set (saves m)" using that by simp
        then have "fst kv \<in> fst ` set (saves m)" by (rule imageI)
        then show False using tmp eq by simp
      qed
      ultimately show ?thesis using sub by auto
    qed
    then have "filter (\<lambda>kv. fst kv \<notin> set (map fst (files w3))) (saves m1) = []"
      unfolding sv by (auto simp add: filter_empty_conv)
    then have "length (filter (\<lambda>kv. fst kv \<notin> set (map fst (files w3))) (saves m1)) = 0"
      by simp
    with rd1 have "cleanupOrphanedMetadata P m1 w1 = (0, m1, w1)"
      by (rule cleanup_no_orphans)
    then show ?thesis by simp
  qed
qed

theorem cleanup_twice_removes_nothing_witness:
  "''metadata.json.tmp'' \<notin> fst ` set (saves one_save) \<and>
   fst (cleanupOrphanedMetadata test_platform one_save (dir_of [])) = 1 \<and>
   fst (cleanupOrphanedMetadata test_platform
          (fst (snd (cleanupOrphanedMetadata test_platform one_save (dir_of []))))
          (snd (snd (cleanupOrphanedMetadata test_platform one_save (dir_of []))))) = 0"
proof -
  have h: "''metadata.json.tmp'' \<notin> fst ` set (saves one_save)"
    by (simp add: run_defs)
  have run: "cleanupOrphanedMetadata test_platform one_save (dir_of []) =
      (fst (cleanupOrphanedMetadata test_platform one_save (dir_of [])),
       fst (snd (cleanupOrphanedMetadata test_platform one_save (dir_of []))),
       snd (snd (cleanupOrphanedMetadata test_platform one_save (dir_of []))))"
    by simp
  have first: "fst (cleanupOrphanedMetadata test_platform one_save (dir_of [])) = 1"
    by (simp add: run_defs)
  show ?thesis
    using h first cleanup_twice_removes_nothing [OF h run] by simp
qed

text \<open>
  C9 as stated fails when \<^verbatim>\<open>metadata.json.tmp\<close> is itself tracked and present: the first
  call removes the orphan \<^verbatim>\<open>gone.json\<close> and persists, the rename inside
  \<^verbatim>\<open>saveMetadata\<close> takes \<^verbatim>\<open>metadata.json.tmp\<close> out of the directory, and the second call
  removes that entry and returns 1.
\<close>

theorem cleanup_twice_counterexample:
  "map fst (saves tracks_tmp) = [''metadata.json.tmp'', ''gone.json''] \<and>
   fst (cleanupOrphanedMetadata test_platform tracks_tmp leftover_tmp) = 1 \<and>
   map fst (files (snd (snd (cleanupOrphanedMetadata test_platform tracks_tmp leftover_tmp)))) =
     [''metadata.json''] \<and>
   fst (cleanupOrphanedMetadata test_platform
          (fst (snd (cleanupOrphanedMetadata test_platform tracks_tmp leftover_tmp)))
          (snd (snd (cleanupOrphanedMetadata test_platform tracks_tmp leftover_tmp)))) = 1"
  by (simp add: run_defs tracks_tmp_def leftover_tmp_def)

text \<open>
  C10. In every record reachable from the constructor's record by calls of the mutating
  methods, each entry has \<^verbatim>\<open>created\<close> equal to \<^verbatim>\<open>lastModified\<close>. Registering a file
  name, tracked before or not, stamps both with the time of this registration; a call of
  any other method leaves both stamps of every entry it keeps as they were.
\<close>

theorem created_equals_lastModified:
  "(reachable m \<longrightarrow> (\<forall>kv \<in> set (saves m). created (snd kv) = lastModified (snd kv))) \<and>
   (fs_readFile w fname = Inr content \<longrightarrow>
      (\<exists>e. map_of (saves (perform P (Register fname si ts) m0 w)) fname = Some e \<and>
           created e = ts \<and> lastModified e = ts)) \<and>
   (\<not> is_Register c \<and> map_of (saves (perform P c m1 v)) f = Some e' \<longrightarrow>
      (\<exists>e. map_of (saves m1) f = Some e \<and> created e' = created e \<and>
           lastModified e' = lastModified e))"
proof (intro conjI impI)
  assume "reachable m"
  then show "\<forall>kv \<in> set (saves m). created (snd kv) = lastModified (snd kv)"
    by (rule reachable_stamps)
next
  assume "fs_readFile w fname = Inr content"
  then show "\<exists>e. map_of (saves (perform P (Register fname si ts) m0 w)) fname = Some e \<and>
           created e = ts \<and> lastModified e = ts"
    by (simp add: register_saves AList.update_conv' new_entry_stamps)
next
  assume "\<not> is_Register c \<and> map_of (saves (perform P c m1 v)) f = Some e'"
  then show "\<exists>e. map_of (saves m1) f = Some e \<and> created e' = created e \<and>
           lastModified e' = lastModified e"
    using other_calls_keep_stamps by blast
qed

theorem created_equals_lastModified_witness:
  "reachable one_save \<and>
   map_option created (map_of (saves one_save) ''a.json'') = Some 1000 \<and>
   map_option lastModified (map_of (saves one_save) ''a.json'') = Some 1000 \<and>
   fs_readFile (dir_of [(''a.json'', ''BBBB'')]) ''a.json'' = Inr ''BBBB'' \<and>
   map_option created
     (map_of (saves (perform test_platform (Register ''a.json'' no_info 2000) one_save
        (dir_of [(''a.json'', ''BBBB'')]))) ''a.json'') = Some 2000 \<and>
   \<not> is_Register (RecordLoad ''a.json'' 3000) \<and>
   map_option lastModified
     (map_of (saves (perform test_platform (RecordLoad ''a.json'' 3000) one_save
        (dir_of [(''a.json'', ''AAAA'')]))) ''a.json'') = Some 1000 \<and>
   map_option lastAccessed
     (map_of (saves (perform test_platform (RecordLoad ''a.json'' 3000) one_save
        (dir_of [(''a.json'', ''AAAA'')]))) ''a.json'') = Some (Some 3000)"
  using reachable_one_save
    created_equals_lastModified [of one_save "dir_of [(''a.json'', ''BBBB'')]" "''a.json''"
      "''BBBB''" test_platform no_info 2000 one_save "RecordLoad ''a.json'' 3000" one_save
      "dir_of [(''a.json'', ''AAAA'')]" "''a.json''"
      "(new_entry test_platform ''a.json'' no_info 1000 ''AAAA'' None)\<lparr>lastAccessed := Some 3000\<rparr>"]
  by (simp add: run_defs)

end
